theory Spec2Isabelle
  imports Complex_Main "HOL-Library.AList"
begin

section \<open>Decoded JSON values and Python exceptions\<close>

text \<open>
  The values \<^verbatim>\<open>orjson.loads\<close> and \<^verbatim>\<open>request.json()\<close> produce: \<^verbatim>\<open>None\<close>, \<^verbatim>\<open>bool\<close>,
  \<^verbatim>\<open>int\<close>, \<^verbatim>\<open>float\<close>, \<^verbatim>\<open>str\<close>, \<^verbatim>\<open>list\<close> and \<^verbatim>\<open>dict\<close> with \<^verbatim>\<open>str\<close> keys. A dict is an
  association list in insertion order; lookup takes the first entry of a key. A float is
  carried as the real number it denotes (the code never computes with one). Python's
  \<^verbatim>\<open>None\<close> and JSON's \<^verbatim>\<open>null\<close> are the same value \<open>JNull\<close>. A \<^verbatim>\<open>str\<close> and a byte buffer
  are both a \<open>string\<close>.
\<close>

datatype json =
    JNull
  | JBool bool
  | JInt int
  | JFloat real
  | JStr string
  | JArr "json list"
  | JObj "(string \<times> json) list"

datatype py_error = JSONDecodeError | KeyError | IndexError | TypeError | AttributeError

text \<open>Sequencing of two steps of which the first may raise.\<close>

definition and_then :: "py_error + 'a \<Rightarrow> ('a \<Rightarrow> py_error + 'b) \<Rightarrow> py_error + 'b" where
  "and_then m f = (case m of Inl e \<Rightarrow> Inl e | Inr x \<Rightarrow> f x)"

text \<open>Python truth value testing, as in \<^verbatim>\<open>if tool_calls:\<close> and \<^verbatim>\<open>if usage:\<close>.\<close>

fun truthy :: "json \<Rightarrow> bool" where
  "truthy JNull = False"
| "truthy (JBool b) = b"
| "truthy (JInt n) = (n \<noteq> 0)"
| "truthy (JFloat r) = (r \<noteq> 0)"
| "truthy (JStr s) = (s \<noteq> [])"
| "truthy (JArr xs) = (xs \<noteq> [])"
| "truthy (JObj d) = (d \<noteq> [])"

text \<open>
  Subscription \<^verbatim>\<open>obj[k]\<close> with a string key or a non-negative integer index. A dict
  without the key raises \<^verbatim>\<open>KeyError\<close> (an integer is never a key of a decoded dict), a list
  or a string indexed past its end raises \<^verbatim>\<open>IndexError\<close>, a list or a string subscripted
  by a string raises \<^verbatim>\<open>TypeError\<close>, and so does every subscription of \<^verbatim>\<open>None\<close>, a bool or a
  number.
\<close>

datatype subscript = Key string | Idx nat

fun getitem :: "json \<Rightarrow> subscript \<Rightarrow> py_error + json" where
  "getitem (JObj d) (Key k) = (case map_of d k of Some v \<Rightarrow> Inr v | None \<Rightarrow> Inl KeyError)"
| "getitem (JObj d) (Idx n) = Inl KeyError"
| "getitem (JArr xs) (Idx n) = (if n < length xs then Inr (xs ! n) else Inl IndexError)"
| "getitem (JStr s) (Idx n) = (if n < length s then Inr (JStr [s ! n]) else Inl IndexError)"
| "getitem _ _ = Inl TypeError"

text \<open>A chain of subscriptions \<^verbatim>\<open>obj[a][b][c]\<close>, evaluated left to right.\<close>

fun get_path :: "json \<Rightarrow> subscript list \<Rightarrow> py_error + json" where
  "get_path j [] = Inr j"
| "get_path j (s # ss) = and_then (getitem j s) (\<lambda>v. get_path v ss)"

text \<open>\<^verbatim>\<open>obj.get(k, default)\<close>: only a dict has the method.\<close>

fun py_get :: "json \<Rightarrow> string \<Rightarrow> json \<Rightarrow> py_error + json" where
  "py_get (JObj d) k dflt = Inr (case map_of d k of Some v \<Rightarrow> v | None \<Rightarrow> dflt)"
| "py_get _ k dflt = Inl AttributeError"

text \<open>
  The result dict \<^verbatim>\<open>target_info\<close> is keyed by decoded values, because one of its keys is
  the role read from the response. Storing under a list or a dict raises \<^verbatim>\<open>TypeError\<close>
  (unhashable). All other keys of \<^verbatim>\<open>target_info\<close> are strings, so at most one key is not
  a string and equality of keys is equality of values.
\<close>

fun hashable :: "json \<Rightarrow> bool" where
  "hashable (JArr xs) = False"
| "hashable (JObj d) = False"
| "hashable _ = True"

definition setitem :: "(json \<times> json) list \<Rightarrow> json \<Rightarrow> json \<Rightarrow> py_error + (json \<times> json) list" where
  "setitem d k v = (if hashable k then Inr (AList.update k v d) else Inl TypeError)"

text \<open>\<^verbatim>\<open>s.startswith(p)\<close>.\<close>

definition startswith :: "string \<Rightarrow> string \<Rightarrow> bool" where
  "startswith s p = (take (length p) s = p)"

definition start_token :: string where
  "start_token = ''data: ''"

definition start_token_len :: nat where
  "start_token_len = length start_token"

section \<open>The request normalizer: \<^verbatim>\<open>LangfuseLogger.parse_payload\<close>\<close>

text \<open>
  Inputs: the configured \<^verbatim>\<open>DEFAULT_REQUEST_CACHING_VALUE\<close>, the serializer
  \<^verbatim>\<open>orjson.dumps\<close> (it may raise), the results of \<^verbatim>\<open>get_unique_id()\<close>,
  \<^verbatim>\<open>get_client_ip(request)\<close> and \<^verbatim>\<open>time.strftime(...)\<close>, and the decoded body
  \<^verbatim>\<open>await request.json()\<close>. The two required fields are subscripted, the optional ones
  are read with \<^verbatim>\<open>.get\<close> and a default, \<^verbatim>\<open>caching\<close> is popped. The result is the
  \<^verbatim>\<open>info\<close> dict, in the order of the source's literal, and the serialized residual body.
\<close>

definition get_default :: "(string \<times> json) list \<Rightarrow> string \<Rightarrow> json \<Rightarrow> json" where
  "get_default d k dflt = (case map_of d k of Some v \<Rightarrow> v | None \<Rightarrow> dflt)"

definition parse_payload ::
  "json \<Rightarrow> (json \<Rightarrow> py_error + string) \<Rightarrow> json \<Rightarrow> json \<Rightarrow> string \<Rightarrow> json
     \<Rightarrow> py_error + ((string \<times> json) list \<times> string)" where
  "parse_payload default_caching dumps uid client_ip datetime payload =
     (case payload of
        JObj d \<Rightarrow>
          and_then (getitem payload (Key ''messages'')) (\<lambda>messages.
          and_then (getitem payload (Key ''model'')) (\<lambda>model.
          and_then (dumps (JObj (AList.delete ''caching'' d))) (\<lambda>body.
            Inr ([(''messages'', messages),
                  (''model'', model),
                  (''stream'', get_default d ''stream'' (JBool False)),
                  (''max_tokens'', get_default d ''max_tokens'' JNull),
                  (''response_format'', get_default d ''response_format'' JNull),
                  (''n'', get_default d ''n'' (JInt 1)),
                  (''temperature'', get_default d ''temperature'' (JInt 1)),
                  (''top_p'', get_default d ''top_p'' (JInt 1)),
                  (''logit_bias'', get_default d ''logit_bias'' JNull),
                  (''frequency_penalty'', get_default d ''frequency_penalty'' (JInt 0)),
                  (''presence_penalty'', get_default d ''presence_penalty'' (JInt 0)),
                  (''seed'', get_default d ''seed'' JNull),
                  (''stop'', get_default d ''stop'' JNull),
                  (''user'', get_default d ''user'' JNull),
                  (''tools'', get_default d ''tools'' JNull),
                  (''tool_choice'', get_default d ''tool_choice'' JNull),
                  (''ip'', if truthy client_ip then client_ip else JStr ''''),
                  (''uid'', uid),
                  (''caching'', get_default d ''caching'' default_caching),
                  (''datetime'', JStr datetime)],
                 body))))
      | _ \<Rightarrow> Inl TypeError)"

section \<open>The response reconstructor: \<^verbatim>\<open>LangfuseLogger.parse_bytearray\<close>\<close>

subsection \<open>One streamed line: \<^verbatim>\<open>_parse_one_line_content\<close> (lines 139 to 169)\<close>

text \<open>
  The decoder \<^verbatim>\<open>orjson.loads\<close> is a parameter; \<open>None\<close> is its \<^verbatim>\<open>JSONDecodeError\<close>. The
  handlers at the end of the source catch \<^verbatim>\<open>JSONDecodeError\<close> and \<^verbatim>\<open>KeyError\<close> and nothing
  else. The second component of the result is the usage, \<open>JNull\<close> for \<^verbatim>\<open>None\<close>.
\<close>

definition except_decode_key :: "py_error + json \<times> json \<Rightarrow> py_error + json \<times> json" where
  "except_decode_key m =
     (case m of
        Inl JSONDecodeError \<Rightarrow> Inr (JStr '''', JNull)
      | Inl KeyError \<Rightarrow> Inr (JStr '''', JNull)
      | _ \<Rightarrow> m)"

definition parse_one_line_content ::
  "(string \<Rightarrow> json option) \<Rightarrow> string \<Rightarrow> string \<Rightarrow> py_error + json \<times> json" where
  "parse_one_line_content loads line parse_key =
     except_decode_key
       (case loads line of
          None \<Rightarrow> Inl JSONDecodeError
        | Some line_dict \<Rightarrow>
            if parse_key = ''content'' then
              and_then (get_path line_dict
                          [Key ''choices'', Idx 0, Key ''delta'', Key parse_key]) (\<lambda>delta_content.
              and_then (get_path line_dict
                          [Key ''choices'', Idx 0, Key ''finish_reason'']) (\<lambda>finish_reason.
              and_then (if finish_reason = JStr ''stop''
                        then getitem line_dict (Key ''usage'') else Inr JNull) (\<lambda>usage.
                Inr (delta_content, usage))))
            else if parse_key = ''tool_calls'' then
              and_then (get_path line_dict
                          [Key ''choices'', Idx 0, Key ''delta'', Key ''tool_calls'']) (\<lambda>tool_calls.
              and_then (get_path tool_calls
                          [Idx 0, Key ''function'', Key ''arguments'']) (\<lambda>arguments.
                Inr (arguments, JNull)))
            else Inr (JStr '''', JNull))"

subsection \<open>Shape detection and the first frame (lines 79 to 91)\<close>

text \<open>
  The splitter \<^verbatim>\<open>parse_sse_buffer\<close> is a parameter. The result is the stream flag, the
  lines, \<^verbatim>\<open>first_dict\<close> and \<^verbatim>\<open>msg\<close>. \<^verbatim>\<open>txt_lines[0]\<close> raises \<^verbatim>\<open>IndexError\<close> on an empty
  list.
\<close>

definition first_frame ::
  "(string \<Rightarrow> json option) \<Rightarrow> (string \<Rightarrow> string list) \<Rightarrow> string
     \<Rightarrow> py_error + (bool \<times> string list \<times> json \<times> json)" where
  "first_frame loads parse_sse_buffer buffer =
     (if startswith buffer ''data: '' then
        (let txt_lines = parse_sse_buffer buffer in
         case txt_lines of
           [] \<Rightarrow> Inl IndexError
         | l0 # _ \<Rightarrow>
             (case loads (drop start_token_len l0) of
                None \<Rightarrow> Inl JSONDecodeError
              | Some first_dict \<Rightarrow>
                  and_then (get_path first_dict [Key ''choices'', Idx 0, Key ''delta''])
                    (\<lambda>msg. Inr (True, txt_lines, first_dict, msg))))
      else
        (case loads buffer of
           None \<Rightarrow> Inl JSONDecodeError
         | Some first_dict \<Rightarrow>
             and_then (get_path first_dict [Key ''choices'', Idx 0, Key ''message''])
               (\<lambda>msg. Inr (False, [], first_dict, msg))))"

subsection \<open>Header extraction (lines 93 to 116)\<close>

text \<open>
  The result is \<^verbatim>\<open>target_info\<close>, \<^verbatim>\<open>role\<close>, \<^verbatim>\<open>tool_calls\<close> and \<^verbatim>\<open>parse_content_key\<close>.
\<close>

definition header ::
  "json \<Rightarrow> json \<Rightarrow> py_error + ((json \<times> json) list \<times> json \<times> json \<times> string)" where
  "header first_dict msg =
     and_then (getitem first_dict (Key ''created'')) (\<lambda>created.
     and_then (getitem first_dict (Key ''id'')) (\<lambda>ident.
     and_then (getitem first_dict (Key ''model'')) (\<lambda>model.
     and_then (getitem msg (Key ''role'')) (\<lambda>role.
     and_then (py_get msg ''content'' JNull) (\<lambda>content.
     and_then (py_get msg ''tool_calls'' JNull) (\<lambda>tool_calls.
       (let target_info =
              AList.update (JStr ''role'') role
                (AList.update (JStr ''model'') model
                  (AList.update (JStr ''id'') ident
                    (AList.update (JStr ''created'') created [])))
        in if truthy tool_calls then
             and_then (setitem target_info role tool_calls) (\<lambda>target_info.
               Inr (AList.update (JStr ''is_tool_calls'') (JBool True) target_info,
                    role, tool_calls, ''tool_calls''))
           else
             and_then (setitem target_info role content) (\<lambda>target_info.
               Inr (AList.update (JStr ''is_tool_calls'') (JBool False) target_info,
                    role, tool_calls, ''content'')))))))))"

subsection \<open>The loop over the later lines (lines 122 to 131)\<close>

text \<open>
  The state is \<^verbatim>\<open>stream_content\<close> and \<^verbatim>\<open>target_info\<close>. \<^verbatim>\<open>stream_content += delta_content\<close>
  raises \<^verbatim>\<open>TypeError\<close> unless \<^verbatim>\<open>delta_content\<close> is a string. The \<^verbatim>\<open>print\<close> of the source
  writes to the console only.
\<close>

fun stream_loop ::
  "(string \<Rightarrow> json option) \<Rightarrow> string \<Rightarrow> string list \<Rightarrow> string \<times> (json \<times> json) list
     \<Rightarrow> py_error + (string \<times> (json \<times> json) list)" where
  "stream_loop loads parse_content_key [] st = Inr st"
| "stream_loop loads parse_content_key (line # rest) (stream_content, target_info) =
     (if startswith line start_token then
        and_then (parse_one_line_content loads (drop start_token_len line) parse_content_key)
          (\<lambda>(delta_content, usage).
             case delta_content of
               JStr s \<Rightarrow>
                 stream_loop loads parse_content_key rest
                   (stream_content @ s,
                    if truthy usage then AList.update (JStr ''usage'') usage target_info
                    else target_info)
             | _ \<Rightarrow> Inl TypeError)
      else stream_loop loads parse_content_key rest (stream_content, target_info))"

subsection \<open>Finalization (lines 132 to 137)\<close>

text \<open>
  \<^verbatim>\<open>tool_calls[0]['function']['arguments'] = stream_content\<close> reads \<^verbatim>\<open>tool_calls[0]\<close> and
  then its \<^verbatim>\<open>'function'\<close>, and stores into that object: only a dict accepts a string key.
  The store is in place, in a decoded tree that shares nothing, so the updated list is
  the old one with the new \<^verbatim>\<open>arguments\<close> inside its first entry.
\<close>

definition store_arguments :: "json \<Rightarrow> string \<Rightarrow> py_error + json" where
  "store_arguments tool_calls stream_content =
     and_then (getitem tool_calls (Idx 0)) (\<lambda>entry.
     and_then (getitem entry (Key ''function'')) (\<lambda>func.
       case (tool_calls, entry, func) of
         (JArr (e # es), JObj ed, JObj fd) \<Rightarrow>
           Inr (JArr (JObj (AList.update ''function''
                              (JObj (AList.update ''arguments'' (JStr stream_content) fd)) ed)
                      # es))
       | _ \<Rightarrow> Inl TypeError))"

definition finish ::
  "json \<Rightarrow> json \<Rightarrow> string \<times> (json \<times> json) list \<Rightarrow> py_error + (json \<times> json) list" where
  "finish role tool_calls st =
     (case st of (stream_content, target_info) \<Rightarrow>
        (case map_of target_info (JStr ''is_tool_calls'') of
           None \<Rightarrow> Inl KeyError
         | Some flag \<Rightarrow>
             if truthy flag then
               and_then (store_arguments tool_calls stream_content) (\<lambda>tool_calls.
                 setitem target_info role tool_calls)
             else setitem target_info role (JStr stream_content)))"

subsection \<open>The whole function (lines 67 to 137)\<close>

definition parse_bytearray ::
  "(string \<Rightarrow> json option) \<Rightarrow> (string \<Rightarrow> string list) \<Rightarrow> string
     \<Rightarrow> py_error + (json \<times> json) list" where
  "parse_bytearray loads parse_sse_buffer buffer =
     and_then (first_frame loads parse_sse_buffer buffer) (\<lambda>(stream, txt_lines, first_dict, msg).
     and_then (header first_dict msg) (\<lambda>(target_info, role, tool_calls, parse_content_key).
       if \<not> stream then Inr target_info
       else
         and_then (stream_loop loads parse_content_key (tl txt_lines) ('''', target_info))
           (finish role tool_calls)))"

section \<open>Notions used to state the properties\<close>

text \<open>
  The frames among some lines: the lines that carry the marker, without the marker, in
  arrival order. The later frames of a streamed response are the frames among the lines
  after the first.
\<close>

definition marked :: "string list \<Rightarrow> string list" where
  "marked ls = map (drop start_token_len) (filter (\<lambda>l. startswith l start_token) ls)"

definition frames :: "string list \<Rightarrow> string list" where
  "frames txt_lines = marked (tl txt_lines)"

text \<open>
  The last value that is present in a list of optional values, or an earlier one \<open>acc\<close>
  when none is present.
\<close>

definition last_present :: "'a option list \<Rightarrow> 'a option \<Rightarrow> 'a option" where
  "last_present xs acc = fold (\<lambda>x acc. case x of None \<Rightarrow> acc | Some y \<Rightarrow> Some y) xs acc"

text \<open>
  What a later frame contributes in content mode: its \<^verbatim>\<open>choices[0].delta.content\<close> when
  the frame decodes and has the keys of that mode (\<^verbatim>\<open>delta.content\<close>, \<^verbatim>\<open>finish_reason\<close>,
  and \<^verbatim>\<open>usage\<close> when the finish reason is \<^verbatim>\<open>"stop"\<close>), the empty string otherwise.
\<close>

definition content_increment :: "(string \<Rightarrow> json option) \<Rightarrow> string \<Rightarrow> string" where
  "content_increment loads frame =
     (case loads frame of
        None \<Rightarrow> ''''
      | Some j \<Rightarrow>
          (case (get_path j [Key ''choices'', Idx 0, Key ''delta'', Key ''content''],
                 get_path j [Key ''choices'', Idx 0, Key ''finish_reason'']) of
             (Inr (JStr s), Inr fr) \<Rightarrow>
               if fr = JStr ''stop'' \<and> isl (getitem j (Key ''usage'')) then '''' else s
           | _ \<Rightarrow> ''''))"

text \<open>
  The usage a later frame reports in content mode: the frame decodes, has
  \<^verbatim>\<open>delta.content\<close>, its finish reason is \<^verbatim>\<open>"stop"\<close> and its \<^verbatim>\<open>usage\<close> is a value that
  Python takes as true.
\<close>

definition frame_usage :: "(string \<Rightarrow> json option) \<Rightarrow> string \<Rightarrow> json option" where
  "frame_usage loads frame =
     (case loads frame of
        None \<Rightarrow> None
      | Some j \<Rightarrow>
          (case (get_path j [Key ''choices'', Idx 0, Key ''delta'', Key ''content''],
                 get_path j [Key ''choices'', Idx 0, Key ''finish_reason''],
                 getitem j (Key ''usage'')) of
             (Inr c, Inr fr, Inr u) \<Rightarrow> if fr = JStr ''stop'' \<and> truthy u then Some u else None
           | _ \<Rightarrow> None))"


text \<open>
  The two kinds of later frame in content mode. A content frame decodes, carries a string
  under \<^verbatim>\<open>choices[0].delta.content\<close>, has \<^verbatim>\<open>choices[0].finish_reason\<close> and, when the
  finish reason is \<^verbatim>\<open>"stop"\<close>, a \<^verbatim>\<open>usage\<close> key. A malformed frame is not valid JSON, or
  a dict on the way to one of these keys lacks the key that is looked up.
\<close>

definition content_frame :: "(string \<Rightarrow> json option) \<Rightarrow> string \<Rightarrow> bool" where
  "content_frame loads frame =
     (case loads frame of
        None \<Rightarrow> False
      | Some j \<Rightarrow>
          (case (get_path j [Key ''choices'', Idx 0, Key ''delta'', Key ''content''],
                 get_path j [Key ''choices'', Idx 0, Key ''finish_reason'']) of
             (Inr (JStr s), Inr fr) \<Rightarrow>
               (if fr = JStr ''stop'' then \<not> isl (getitem j (Key ''usage'')) else True)
           | _ \<Rightarrow> False))"

definition malformed_frame :: "(string \<Rightarrow> json option) \<Rightarrow> string \<Rightarrow> bool" where
  "malformed_frame loads frame =
     (case loads frame of
        None \<Rightarrow> True
      | Some j \<Rightarrow>
          (case get_path j [Key ''choices'', Idx 0, Key ''delta'', Key ''content''] of
             Inl e \<Rightarrow> e = KeyError
           | Inr c \<Rightarrow>
               (case get_path j [Key ''choices'', Idx 0, Key ''finish_reason''] of
                  Inl e \<Rightarrow> e = KeyError
                | Inr fr \<Rightarrow>
                    fr = JStr ''stop'' \<and> getitem j (Key ''usage'') = Inl KeyError)))"

text \<open>The text of the first frame, as the decoder receives it.\<close>

definition first_text :: "(string \<Rightarrow> string list) \<Rightarrow> string \<Rightarrow> string option" where
  "first_text parse_sse_buffer buffer =
     (if startswith buffer ''data: '' then
        (case parse_sse_buffer buffer of
           [] \<Rightarrow> None
         | l0 # _ \<Rightarrow> Some (drop start_token_len l0))
      else Some buffer)"


section \<open>Sample inputs\<close>

text \<open>
  Modelled from the spec: \<^verbatim>\<open>parse_sse_buffer\<close> is defined in \<^verbatim>\<open>content/helper.py\<close>, which
  is not among the sources; the spec calls a streamed buffer a sequence of lines, each
  with the marker. \<open>split_lines\<close> cuts a buffer at every line feed. Only the examples
  use it: every general statement holds for any splitter.
\<close>

fun split_lines :: "string \<Rightarrow> string list" where
  "split_lines [] = [[]]"
| "split_lines (c # cs) =
     (if c = CHR 0x0A then [] # split_lines cs
      else (case split_lines cs of
              [] \<Rightarrow> [[c]]
            | l # ls \<Rightarrow> (c # l) # ls))"

text \<open>
  A streamed buffer as the upstream service sends it: every JSON text after the marker
  and followed by an empty line.
\<close>

definition blank_line :: string where
  "blank_line = [CHR 0x0A, CHR 0x0A]"

definition sse_buffer :: "string list \<Rightarrow> string" where
  "sse_buffer ts = concat (map (\<lambda>t. start_token @ t @ blank_line) ts)"

text \<open>
  The JSON texts of the examples, each with the value that \<^verbatim>\<open>orjson.loads\<close> returns on
  it. The first two are the frames of the example in the spec.
\<close>

definition usage5 :: json where
  "usage5 = JObj [(''total_tokens'', JInt 5)]"

definition head_fields :: "(string \<times> json) list" where
  "head_fields = [(''id'', JStr ''x''), (''created'', JInt 1), (''model'', JStr ''m'')]"

definition delta_frame :: "json \<Rightarrow> json \<Rightarrow> (string \<times> json) list" where
  "delta_frame delta finish_reason =
     [(''choices'', JArr [JObj [(''delta'', delta), (''finish_reason'', finish_reason)]])]"

definition tool_entry :: "int \<Rightarrow> string \<Rightarrow> string \<Rightarrow> json" where
  "tool_entry i name args =
     JObj [(''index'', JInt i),
           (''function'', JObj [(''name'', JStr name), (''arguments'', JStr args)])]"

definition fragment :: "string \<Rightarrow> json" where
  "fragment args = JObj [(''index'', JInt 0), (''function'', JObj [(''arguments'', JStr args)])]"

definition txt_header :: string where
  \<open>txt_header = ''{"id":"x","created":1,"model":"m","choices":[{"delta":{"role":"assistant","content":"Hel"},"finish_reason":null}]}''\<close>

definition msg_header :: json where
  "msg_header = JObj [(''role'', JStr ''assistant''), (''content'', JStr ''Hel'')]"

definition dec_header :: json where
  "dec_header = JObj (head_fields @ delta_frame msg_header JNull)"

definition txt_lo :: string where
  \<open>txt_lo = ''{"choices":[{"delta":{"content":"lo"},"finish_reason":"stop"}],"usage":{"total_tokens":5}}''\<close>

definition dec_lo :: json where
  "dec_lo = JObj (delta_frame (JObj [(''content'', JStr ''lo'')]) (JStr ''stop'')
                  @ [(''usage'', usage5)])"

definition txt_stop_no_usage :: string where
  \<open>txt_stop_no_usage = ''{"choices":[{"delta":{"content":"lo"},"finish_reason":"stop"}]}''\<close>

definition dec_stop_no_usage :: json where
  "dec_stop_no_usage = JObj (delta_frame (JObj [(''content'', JStr ''lo'')]) (JStr ''stop''))"

definition txt_empty_delta :: string where
  \<open>txt_empty_delta = ''{"choices":[{"delta":{},"finish_reason":"stop"}],"usage":{"total_tokens":5}}''\<close>

definition dec_empty_delta :: json where
  "dec_empty_delta = JObj (delta_frame (JObj []) (JStr ''stop'') @ [(''usage'', usage5)])"

definition txt_no_choices :: string where
  \<open>txt_no_choices = ''{"choices":[],"usage":{"total_tokens":5}}''\<close>

definition dec_no_choices :: json where
  "dec_no_choices = JObj [(''choices'', JArr []), (''usage'', usage5)]"

definition txt_message :: string where
  \<open>txt_message = ''{"id":"x","created":1,"model":"m","choices":[{"message":{"role":"assistant","content":"Hi"},"finish_reason":"stop"}],"usage":{"total_tokens":5}}''\<close>

definition msg_message :: json where
  "msg_message = JObj [(''role'', JStr ''assistant''), (''content'', JStr ''Hi'')]"

definition dec_message :: json where
  "dec_message =
     JObj (head_fields
           @ [(''choices'',
                 JArr [JObj [(''message'', msg_message), (''finish_reason'', JStr ''stop'')]]),
              (''usage'', usage5)])"

definition txt_tool_header :: string where
  \<open>txt_tool_header = ''{"id":"x","created":1,"model":"m","choices":[{"delta":{"role":"assistant","tool_calls":[{"index":0,"function":{"name":"f","arguments":""}}]},"finish_reason":null}]}''\<close>

definition msg_tool_header :: json where
  "msg_tool_header =
     JObj [(''role'', JStr ''assistant''), (''tool_calls'', JArr [tool_entry 0 ''f'' ''''])]"

definition dec_tool_header :: json where
  "dec_tool_header = JObj (head_fields @ delta_frame msg_tool_header JNull)"

definition txt_tool_header2 :: string where
  \<open>txt_tool_header2 = ''{"id":"x","created":1,"model":"m","choices":[{"delta":{"role":"assistant","tool_calls":[{"index":0,"function":{"name":"f","arguments":""}},{"index":1,"function":{"name":"g","arguments":""}}]},"finish_reason":null}]}''\<close>

definition msg_tool_header2 :: json where
  "msg_tool_header2 =
     JObj [(''role'', JStr ''assistant''),
           (''tool_calls'', JArr [tool_entry 0 ''f'' '''', tool_entry 1 ''g'' ''''])]"

definition dec_tool_header2 :: json where
  "dec_tool_header2 = JObj (head_fields @ delta_frame msg_tool_header2 JNull)"

definition txt_args_open :: string where
  \<open>txt_args_open = ''{"choices":[{"delta":{"tool_calls":[{"index":0,"function":{"arguments":"{"}}]},"finish_reason":null}]}''\<close>

definition dec_args_open :: json where
  "dec_args_open = JObj (delta_frame (JObj [(''tool_calls'', JArr [fragment ''{''])]) JNull)"

definition txt_args_close :: string where
  \<open>txt_args_close = ''{"choices":[{"delta":{"tool_calls":[{"index":0,"function":{"arguments":"}"}}]},"finish_reason":null}]}''\<close>

definition dec_args_close :: json where
  "dec_args_close = JObj (delta_frame (JObj [(''tool_calls'', JArr [fragment ''}''])]) JNull)"

definition txt_mid :: string where
  \<open>txt_mid = ''{"choices":[{"delta":{"content":"l"},"finish_reason":null}]}''\<close>

definition dec_mid :: json where
  "dec_mid = JObj (delta_frame (JObj [(''content'', JStr ''l'')]) JNull)"

definition txt_bare :: string where
  \<open>txt_bare = ''{"choices":[{"delta":{"content":"l"}}]}''\<close>

definition dec_bare :: json where
  "dec_bare = JObj [(''choices'', JArr [JObj [(''delta'', JObj [(''content'', JStr ''l'')])]])]"

text \<open>
  The decoder of the examples. Every text outside the table, such as the closing
  \<^verbatim>\<open>[DONE]\<close> of a stream, counts as undecodable.
\<close>

definition sample_table :: "(string \<times> json) list" where
  "sample_table =
     [(txt_header, dec_header),
      (txt_lo, dec_lo),
      (txt_stop_no_usage, dec_stop_no_usage),
      (txt_empty_delta, dec_empty_delta),
      (txt_no_choices, dec_no_choices),
      (''{}'', JObj []),
      (txt_message, dec_message),
      (txt_tool_header, dec_tool_header),
      (txt_tool_header2, dec_tool_header2),
      (txt_args_open, dec_args_open),
      (txt_args_close, dec_args_close),
      (txt_mid, dec_mid),
      (txt_bare, dec_bare)]"

definition sample_loads :: "string \<Rightarrow> json option" where
  "sample_loads = map_of sample_table"

text \<open>
  The result for a response with the head fields of the examples: the payload under the
  role, the flag, and what the loop added.
\<close>

definition response_info :: "json \<Rightarrow> bool \<Rightarrow> (json \<times> json) list \<Rightarrow> (json \<times> json) list" where
  "response_info payload flag added =
     [(JStr ''created'', JInt 1), (JStr ''id'', JStr ''x''), (JStr ''model'', JStr ''m''),
      (JStr ''role'', JStr ''assistant''), (JStr ''assistant'', payload),
      (JStr ''is_tool_calls'', JBool flag)] @ added"

text \<open>A request body, and what \<^verbatim>\<open>orjson.dumps\<close> returns on its two residual bodies.\<close>

definition sample_body :: "(string \<times> json) list" where
  "sample_body = [(''messages'', JArr []), (''model'', JStr ''m'')]"

definition sample_dumps :: "json \<Rightarrow> py_error + string" where
  \<open>sample_dumps j =
     (if j = JObj sample_body then Inr ''{"messages":[],"model":"m"}''
      else if j = JObj (sample_body @ [(''logprobs'', JBool True)])
      then Inr ''{"messages":[],"model":"m","logprobs":true}''
      else Inl TypeError)\<close>

section \<open>Basic facts\<close>

lemma and_then_Inl [simp]: "and_then (Inl e) f = Inl e"
  by (simp add: and_then_def)

lemma and_then_Inr [simp]: "and_then (Inr x) f = f x"
  by (simp add: and_then_def)

lemma and_then_eq_Inr: "and_then m f = Inr y \<longleftrightarrow> (\<exists>x. m = Inr x \<and> f x = Inr y)"
  by (cases m) simp_all

lemma absent_key: "fst ` set d \<subseteq> K \<Longrightarrow> k \<notin> K \<Longrightarrow> map_of d k = None"
  by (auto simp: map_of_eq_None_iff)


lemma except_decode_key_Inr:
  "except_decode_key m = Inr r \<longleftrightarrow>
     m = Inr r \<or> (r = (JStr '''', JNull) \<and> (m = Inl JSONDecodeError \<or> m = Inl KeyError))"
  by (auto simp: except_decode_key_def split: sum.splits py_error.splits)

section \<open>Facts about the sample inputs\<close>

lemmas txt_defs =
  txt_header_def txt_lo_def txt_stop_no_usage_def txt_empty_delta_def txt_no_choices_def
  txt_message_def txt_tool_header_def txt_tool_header2_def txt_args_open_def txt_args_close_def
  txt_mid_def txt_bare_def

lemma loads_header: "sample_loads txt_header = Some dec_header"
  by (simp add: sample_loads_def sample_table_def)

lemma loads_lo: "sample_loads txt_lo = Some dec_lo"
  by (simp add: sample_loads_def sample_table_def txt_defs)

lemma loads_stop_no_usage: "sample_loads txt_stop_no_usage = Some dec_stop_no_usage"
  by (simp add: sample_loads_def sample_table_def txt_defs)

lemma loads_empty_delta: "sample_loads txt_empty_delta = Some dec_empty_delta"
  by (simp add: sample_loads_def sample_table_def txt_defs)

lemma loads_no_choices: "sample_loads txt_no_choices = Some dec_no_choices"
  by (simp add: sample_loads_def sample_table_def txt_defs)

lemma loads_empty_object: "sample_loads ''{}'' = Some (JObj [])"
  by (simp add: sample_loads_def sample_table_def txt_defs)

lemma loads_message: "sample_loads txt_message = Some dec_message"
  by (simp add: sample_loads_def sample_table_def txt_defs)

lemma loads_tool_header: "sample_loads txt_tool_header = Some dec_tool_header"
  by (simp add: sample_loads_def sample_table_def txt_defs)

lemma loads_tool_header2: "sample_loads txt_tool_header2 = Some dec_tool_header2"
  by (simp add: sample_loads_def sample_table_def txt_defs)

lemma loads_args_open: "sample_loads txt_args_open = Some dec_args_open"
  by (simp add: sample_loads_def sample_table_def txt_defs)

lemma loads_args_close: "sample_loads txt_args_close = Some dec_args_close"
  by (simp add: sample_loads_def sample_table_def txt_defs)

lemma loads_mid: "sample_loads txt_mid = Some dec_mid"
  by (simp add: sample_loads_def sample_table_def txt_defs)

lemma loads_bare: "sample_loads txt_bare = Some dec_bare"
  by (simp add: sample_loads_def sample_table_def txt_defs)

lemma loads_done: "sample_loads ''[DONE]'' = None"
  by (simp add: sample_loads_def sample_table_def txt_defs)

lemmas loads_simps =
  loads_header loads_lo loads_stop_no_usage loads_empty_delta loads_no_choices
  loads_empty_object loads_message loads_tool_header loads_tool_header2 loads_args_open
  loads_args_close loads_mid loads_bare loads_done

lemma no_line_feed:
  "CHR 0x0A \<notin> set txt_header"
  "CHR 0x0A \<notin> set txt_lo"
  "CHR 0x0A \<notin> set txt_stop_no_usage"
  "CHR 0x0A \<notin> set txt_empty_delta"
  "CHR 0x0A \<notin> set txt_no_choices"
  "CHR 0x0A \<notin> set txt_tool_header"
  "CHR 0x0A \<notin> set txt_tool_header2"
  "CHR 0x0A \<notin> set txt_args_open"
  "CHR 0x0A \<notin> set txt_args_close"
  "CHR 0x0A \<notin> set txt_mid"
  "CHR 0x0A \<notin> set txt_bare"
  "CHR 0x0A \<notin> set ''[DONE]''"
  by (simp_all add: txt_defs)

lemma message_unmarked: "\<not> startswith txt_message ''data: ''"
  by (simp add: startswith_def txt_message_def)

lemma empty_object_unmarked: "\<not> startswith ''{}'' ''data: ''"
  by (simp add: startswith_def)

lemma split_lines_no_line_feed:
  "CHR 0x0A \<notin> set s \<Longrightarrow> split_lines (s @ CHR 0x0A # rest) = s # split_lines rest"
  by (induction s) auto

lemma split_lines_sse_Nil: "split_lines (sse_buffer []) = [[]]"
  by (simp add: sse_buffer_def)

lemma split_lines_sse_Cons:
  assumes "CHR 0x0A \<notin> set t"
  shows "split_lines (sse_buffer (t # ts)) = (start_token @ t) # [] # split_lines (sse_buffer ts)"
proof -
  from assms have "CHR 0x0A \<notin> set (start_token @ t)"
    by (simp add: start_token_def)
  from split_lines_no_line_feed [OF this, of "CHR 0x0A # sse_buffer ts"]
  show ?thesis
    by (simp add: sse_buffer_def blank_line_def)
qed

lemma startswith_sse: "startswith (sse_buffer (t # ts)) ''data: ''"
  by (simp add: sse_buffer_def startswith_def start_token_def)

lemma startswith_marker: "startswith (start_token @ t) start_token"
  by (simp add: startswith_def)

lemma startswith_empty: "\<not> startswith [] start_token"
  by (simp add: startswith_def start_token_def)

lemma drop_marker: "drop start_token_len (start_token @ t) = t"
  by (simp add: start_token_len_def)

lemma drop_marker_parts:
  "drop start_token_len start_token = []" "start_token_len - length start_token = 0"
  by (simp_all add: start_token_len_def)

lemmas sse_simps =
  split_lines_sse_Nil split_lines_sse_Cons no_line_feed startswith_sse startswith_marker
  startswith_empty drop_marker drop_marker_parts

lemmas dec_defs =
  dec_header_def dec_lo_def dec_stop_no_usage_def dec_empty_delta_def dec_no_choices_def
  dec_message_def dec_tool_header_def dec_tool_header2_def dec_args_open_def dec_args_close_def
  dec_mid_def dec_bare_def
  msg_header_def msg_message_def msg_tool_header_def msg_tool_header2_def
  head_fields_def delta_frame_def tool_entry_def fragment_def

lemma truthy_usage5: "truthy usage5"
  by (simp add: usage5_def)

lemmas run_defs =
  truthy_usage5
  parse_bytearray_def first_frame_def header_def setitem_def finish_def store_arguments_def
  parse_one_line_content_def except_decode_key_def response_info_def

section \<open>The request normalizer\<close>

lemma parse_payload_Inr:
  assumes "parse_payload dc dumps uid ip dt (JObj d) = Inr (info, body)"
  shows "dumps (JObj (AList.delete ''caching'' d)) = Inr body"
    and "map_of info ''caching'' = Some (get_default d ''caching'' dc)"
proof -
  from assms obtain messages model where
    b: "dumps (JObj (AList.delete ''caching'' d)) = Inr body"
    and i: "info = [(''messages'', messages),
                  (''model'', model),
                  (''stream'', get_default d ''stream'' (JBool False)),
                  (''max_tokens'', get_default d ''max_tokens'' JNull),
                  (''response_format'', get_default d ''response_format'' JNull),
                  (''n'', get_default d ''n'' (JInt 1)),
                  (''temperature'', get_default d ''temperature'' (JInt 1)),
                  (''top_p'', get_default d ''top_p'' (JInt 1)),
                  (''logit_bias'', get_default d ''logit_bias'' JNull),
                  (''frequency_penalty'', get_default d ''frequency_penalty'' (JInt 0)),
                  (''presence_penalty'', get_default d ''presence_penalty'' (JInt 0)),
                  (''seed'', get_default d ''seed'' JNull),
                  (''stop'', get_default d ''stop'' JNull),
                  (''user'', get_default d ''user'' JNull),
                  (''tools'', get_default d ''tools'' JNull),
                  (''tool_choice'', get_default d ''tool_choice'' JNull),
                  (''ip'', if truthy ip then ip else JStr ''''),
                  (''uid'', uid),
                  (''caching'', get_default d ''caching'' dc),
                  (''datetime'', JStr dt)]"
    unfolding parse_payload_def json.case and_then_eq_Inr by blast
  show "dumps (JObj (AList.delete ''caching'' d)) = Inr body" by (fact b)
  show "map_of info ''caching'' = Some (get_default d ''caching'' dc)"
    unfolding i by simp
qed

lemma delete_caching_filter:
  "AList.delete ''caching'' d = filter (\<lambda>(k, v). k \<noteq> ''caching'') d"
  unfolding AList.delete_eq by (rule filter_cong) auto

text \<open>
  C8. Whenever the normalizer returns, the body is a dict, and the residual body that is
  serialized for forwarding is that dict without its \<^verbatim>\<open>caching\<close> entries: it has no
  \<^verbatim>\<open>caching\<close> key, every other key has the value it had, the entries keep their order,
  and a body without \<^verbatim>\<open>caching\<close> is left as it is. The \<^verbatim>\<open>caching\<close> field of the request
  info is the value of the body's directive, or the configured default when the body has
  none.
\<close>

theorem parse_payload_residual:
  assumes "parse_payload default_caching dumps uid client_ip datetime payload = Inr (info, body)"
  shows "\<exists>d. payload = JObj d
           \<and> dumps (JObj (filter (\<lambda>(k, v). k \<noteq> ''caching'') d)) = Inr body
           \<and> map_of (filter (\<lambda>(k, v). k \<noteq> ''caching'') d) ''caching'' = None
           \<and> (\<forall>k. k \<noteq> ''caching'' \<longrightarrow>
                  map_of (filter (\<lambda>(k, v). k \<noteq> ''caching'') d) k = map_of d k)
           \<and> (map_of d ''caching'' = None \<longrightarrow> filter (\<lambda>(k, v). k \<noteq> ''caching'') d = d)
           \<and> map_of info ''caching''
               = Some (case map_of d ''caching'' of Some v \<Rightarrow> v | None \<Rightarrow> default_caching)"
proof -
  obtain d where d: "payload = JObj d"
  proof (cases payload)
    case (JObj d)
    then show ?thesis by (rule that)
  qed (use assms in \<open>simp_all only: parse_payload_def json.case sum.distinct\<close>)
  note run = assms [unfolded d]
  have body: "dumps (JObj (filter (\<lambda>(k, v). k \<noteq> ''caching'') d)) = Inr body"
    using parse_payload_Inr(1) [OF run] by (simp only: delete_caching_filter)
  have info: "map_of info ''caching''
       = Some (case map_of d ''caching'' of Some v \<Rightarrow> v | None \<Rightarrow> default_caching)"
    using parse_payload_Inr(2) [OF run] by (simp only: get_default_def)
  have none: "map_of (filter (\<lambda>(k, v). k \<noteq> ''caching'') d) ''caching'' = None"
    unfolding delete_caching_filter [symmetric] by (simp add: AList.delete_conv)
  have other: "\<forall>k. k \<noteq> ''caching'' \<longrightarrow>
      map_of (filter (\<lambda>(k, v). k \<noteq> ''caching'') d) k = map_of d k"
    unfolding delete_caching_filter [symmetric] by simp
  have same: "map_of d ''caching'' = None \<longrightarrow> filter (\<lambda>(k, v). k \<noteq> ''caching'') d = d"
    unfolding delete_caching_filter [symmetric] by (simp add: map_of_eq_None_iff)
  show ?thesis
    by (rule exI [where x = d]) (intro conjI d body none other same info)
qed

theorem parse_payload_residual_witness:
  \<open>parse_payload (JBool False) sample_dumps (JStr ''u1'') (JStr ''10.0.0.1'') ''2024-01-01 00:00:00''
      (JObj ((''caching'', JBool True) # sample_body @ [(''logprobs'', JBool True)]))
    = Inr ([(''messages'', JArr []), (''model'', JStr ''m''), (''stream'', JBool False),
            (''max_tokens'', JNull), (''response_format'', JNull), (''n'', JInt 1),
            (''temperature'', JInt 1), (''top_p'', JInt 1), (''logit_bias'', JNull),
            (''frequency_penalty'', JInt 0), (''presence_penalty'', JInt 0), (''seed'', JNull),
            (''stop'', JNull), (''user'', JNull), (''tools'', JNull), (''tool_choice'', JNull),
            (''ip'', JStr ''10.0.0.1''), (''uid'', JStr ''u1''), (''caching'', JBool True),
            (''datetime'', JStr ''2024-01-01 00:00:00'')],
           ''{"messages":[],"model":"m","logprobs":true}'')
   \<and> sample_dumps
        (JObj (filter (\<lambda>(k, v). k \<noteq> ''caching'')
                 ((''caching'', JBool True) # sample_body @ [(''logprobs'', JBool True)])))
       = Inr ''{"messages":[],"model":"m","logprobs":true}''\<close>
proof (rule conjI)
  show run: \<open>parse_payload (JBool False) sample_dumps (JStr ''u1'') (JStr ''10.0.0.1'')
      ''2024-01-01 00:00:00''
      (JObj ((''caching'', JBool True) # sample_body @ [(''logprobs'', JBool True)]))
    = Inr ([(''messages'', JArr []), (''model'', JStr ''m''), (''stream'', JBool False),
            (''max_tokens'', JNull), (''response_format'', JNull), (''n'', JInt 1),
            (''temperature'', JInt 1), (''top_p'', JInt 1), (''logit_bias'', JNull),
            (''frequency_penalty'', JInt 0), (''presence_penalty'', JInt 0), (''seed'', JNull),
            (''stop'', JNull), (''user'', JNull), (''tools'', JNull), (''tool_choice'', JNull),
            (''ip'', JStr ''10.0.0.1''), (''uid'', JStr ''u1''), (''caching'', JBool True),
            (''datetime'', JStr ''2024-01-01 00:00:00'')],
           ''{"messages":[],"model":"m","logprobs":true}'')\<close>
    by (simp add: parse_payload_def get_default_def sample_dumps_def sample_body_def)
  show \<open>sample_dumps
        (JObj (filter (\<lambda>(k, v). k \<noteq> ''caching'')
                 ((''caching'', JBool True) # sample_body @ [(''logprobs'', JBool True)])))
       = Inr ''{"messages":[],"model":"m","logprobs":true}''\<close>
    using parse_payload_residual [OF run] by (elim exE conjE) simp
qed

text \<open>
  C9. A body whose only keys are \<^verbatim>\<open>messages\<close> and \<^verbatim>\<open>model\<close> is accepted (given that the
  serializer accepts it), and every optional field of the request info has its default:
  \<^verbatim>\<open>stream\<close> false, \<^verbatim>\<open>n\<close>, \<^verbatim>\<open>temperature\<close> and \<^verbatim>\<open>top_p\<close> 1, the two penalties 0, \<^verbatim>\<open>caching\<close>
  the configured default, and \<^verbatim>\<open>None\<close> for the others.
\<close>

theorem parse_payload_defaults:
  assumes "map_of d ''messages'' = Some messages"
    and "map_of d ''model'' = Some model"
    and "fst ` set d \<subseteq> {''messages'', ''model''}"
    and "dumps (JObj d) = Inr body"
  shows "parse_payload default_caching dumps uid client_ip datetime (JObj d) =
           Inr ([(''messages'', messages),
                 (''model'', model),
                 (''stream'', JBool False),
                 (''max_tokens'', JNull),
                 (''response_format'', JNull),
                 (''n'', JInt 1),
                 (''temperature'', JInt 1),
                 (''top_p'', JInt 1),
                 (''logit_bias'', JNull),
                 (''frequency_penalty'', JInt 0),
                 (''presence_penalty'', JInt 0),
                 (''seed'', JNull),
                 (''stop'', JNull),
                 (''user'', JNull),
                 (''tools'', JNull),
                 (''tool_choice'', JNull),
                 (''ip'', if truthy client_ip then client_ip else JStr ''''),
                 (''uid'', uid),
                 (''caching'', default_caching),
                 (''datetime'', JStr datetime)],
                body)"
proof -
  note keys = assms(3)
  have del: "AList.delete ''caching'' d = d"
    using keys by (intro AList.delete_id) auto
  have dflt: "get_default d k v = v" if "k \<notin> {''messages'', ''model''}" for k v
    using absent_key [OF keys that] by (simp add: get_default_def)
  show ?thesis
    using assms(1,2,4) by (simp add: parse_payload_def del dflt)
qed

theorem parse_payload_defaults_witness:
  \<open>parse_payload (JBool False) sample_dumps (JStr ''u1'') JNull ''2024-01-01 00:00:00''
      (JObj sample_body)
    = Inr ([(''messages'', JArr []), (''model'', JStr ''m''), (''stream'', JBool False),
            (''max_tokens'', JNull), (''response_format'', JNull), (''n'', JInt 1),
            (''temperature'', JInt 1), (''top_p'', JInt 1), (''logit_bias'', JNull),
            (''frequency_penalty'', JInt 0), (''presence_penalty'', JInt 0), (''seed'', JNull),
            (''stop'', JNull), (''user'', JNull), (''tools'', JNull), (''tool_choice'', JNull),
            (''ip'', JStr ''''), (''uid'', JStr ''u1''), (''caching'', JBool False),
            (''datetime'', JStr ''2024-01-01 00:00:00'')],
           ''{"messages":[],"model":"m"}'')\<close>
proof -
  have m: "map_of sample_body ''messages'' = Some (JArr [])"
    by (simp add: sample_body_def)
  have md: "map_of sample_body ''model'' = Some (JStr ''m'')"
    by (simp add: sample_body_def)
  have keys: "fst ` set sample_body \<subseteq> {''messages'', ''model''}"
    by (simp add: sample_body_def)
  have ser: \<open>sample_dumps (JObj sample_body) = Inr ''{"messages":[],"model":"m"}''\<close>
    by (simp add: sample_dumps_def)
  have ip: "(if truthy JNull then JNull else JStr '''') = JStr ''''"
    by simp
  from parse_payload_defaults [where dumps = sample_dumps and d = sample_body, OF m md keys ser,
      of "JBool False" "JStr ''u1''" JNull "''2024-01-01 00:00:00''"]
  show ?thesis
    unfolding ip .
qed

section \<open>One streamed line\<close>

text \<open>
  C10. In content mode, a line that decodes, carries a string under
  \<^verbatim>\<open>choices[0].delta.content\<close> and reports the finish reason \<^verbatim>\<open>"stop"\<close>, but has no
  \<^verbatim>\<open>usage\<close> key, yields the empty increment and no usage, which is the result for an
  undecodable line; a frame with such a line leaves the state of the loop as it was.
\<close>

theorem stop_without_usage_discarded:
  assumes "loads line = Some j"
    and "get_path j [Key ''choices'', Idx 0, Key ''delta'', Key ''content''] = Inr (JStr s)"
    and "get_path j [Key ''choices'', Idx 0, Key ''finish_reason''] = Inr (JStr ''stop'')"
    and "getitem j (Key ''usage'') = Inl KeyError"
    and "loads bad = None"
  shows "parse_one_line_content loads line ''content'' = Inr (JStr '''', JNull)
       \<and> parse_one_line_content loads line ''content''
           = parse_one_line_content loads bad ''content''
       \<and> stream_loop loads ''content'' ((start_token @ line) # rest) st
           = stream_loop loads ''content'' rest st"
proof -
  have one: "parse_one_line_content loads line ''content'' = Inr (JStr '''', JNull)"
    using assms(1-4) by (simp add: parse_one_line_content_def except_decode_key_def)
  have bad: "parse_one_line_content loads bad ''content'' = Inr (JStr '''', JNull)"
    using assms(5) by (simp add: parse_one_line_content_def except_decode_key_def)
  obtain sc ti where st: "st = (sc, ti)" by (cases st)
  have loop: "stream_loop loads ''content'' ((start_token @ line) # rest) st
           = stream_loop loads ''content'' rest st"
    unfolding st by (simp add: startswith_def start_token_len_def one)
  from one bad loop show ?thesis by simp
qed

theorem stop_without_usage_discarded_witness:
  "parse_one_line_content sample_loads txt_stop_no_usage ''content'' = Inr (JStr '''', JNull)
   \<and> parse_one_line_content sample_loads txt_stop_no_usage ''content''
       = parse_one_line_content sample_loads ''[DONE]'' ''content''
   \<and> stream_loop sample_loads ''content'' ((start_token @ txt_stop_no_usage) # [])
        (''Hel'', [])
       = stream_loop sample_loads ''content'' [] (''Hel'', [])"
proof -
  have c: "get_path dec_stop_no_usage [Key ''choices'', Idx 0, Key ''delta'', Key ''content'']
             = Inr (JStr ''lo'')"
    by (simp add: dec_defs)
  have f: "get_path dec_stop_no_usage [Key ''choices'', Idx 0, Key ''finish_reason'']
             = Inr (JStr ''stop'')"
    by (simp add: dec_defs)
  have u: "getitem dec_stop_no_usage (Key ''usage'') = Inl KeyError"
    by (simp add: dec_defs)
  from stop_without_usage_discarded [OF loads_stop_no_usage c f u loads_done,
      of "[]" "(''Hel'', [])"]
  show ?thesis .
qed

section \<open>The loop over the later lines\<close>

lemma marked_Nil [simp]: "marked [] = []"
  by (simp add: marked_def)

lemma marked_Cons:
  "marked (l # ls) = (if startswith l start_token then drop start_token_len l # marked ls
                      else marked ls)"
  by (simp add: marked_def)

lemma last_present_Nil [simp]: "last_present [] acc = acc"
  by (simp add: last_present_def)

lemma last_present_Cons [simp]:
  "last_present (x # xs) acc = last_present xs (case x of None \<Rightarrow> acc | Some y \<Rightarrow> Some y)"
  by (simp add: last_present_def)

lemma last_present_None:
  "last_present xs None = None \<longleftrightarrow> (\<forall>x \<in> set xs. x = None)"
proof -
  have "last_present xs acc = None \<longleftrightarrow> acc = None \<and> (\<forall>x \<in> set xs. x = None)" for acc :: "'a option"
    by (induction xs arbitrary: acc) (auto split: option.splits)
  then show ?thesis by simp
qed

lemma content_line:
  assumes "parse_one_line_content loads frame ''content'' = Inr (JStr s, u)"
  shows "s = content_increment loads frame"
    and "frame_usage loads frame = (if truthy u then Some u else None)"
proof -
  show "s = content_increment loads frame"
  proof (cases "loads frame")
    case None
    with assms show ?thesis
      by (simp add: parse_one_line_content_def content_increment_def except_decode_key_def)
  next
    case (Some j)
    with assms show ?thesis
      by (auto simp: parse_one_line_content_def content_increment_def except_decode_key_Inr
          and_then_def split: sum.splits if_splits json.splits)
  qed
  show "frame_usage loads frame = (if truthy u then Some u else None)"
  proof (cases "loads frame")
    case None
    with assms show ?thesis
      by (simp add: parse_one_line_content_def frame_usage_def except_decode_key_def)
  next
    case (Some j)
    with assms show ?thesis
      by (auto simp: parse_one_line_content_def frame_usage_def except_decode_key_Inr
          and_then_def split: sum.splits if_splits)
  qed
qed


lemma stream_loop_skip:
  "\<not> startswith l start_token \<Longrightarrow>
     stream_loop loads key (l # ls) (sc0, ti0) = stream_loop loads key ls (sc0, ti0)"
  by simp

lemma stream_loop_step:
  assumes "startswith l start_token"
    and "stream_loop loads key (l # ls) (sc0, ti0) = Inr r"
  obtains s u where "parse_one_line_content loads (drop start_token_len l) key = Inr (JStr s, u)"
    and "stream_loop loads key ls
           (sc0 @ s, if truthy u then AList.update (JStr ''usage'') u ti0 else ti0) = Inr r"
proof -
  from assms obtain dc u where
    line: "parse_one_line_content loads (drop start_token_len l) key = Inr (dc, u)"
    and rest: "(case dc of
                  JStr s \<Rightarrow> stream_loop loads key ls
                     (sc0 @ s, if truthy u then AList.update (JStr ''usage'') u ti0 else ti0)
                | _ \<Rightarrow> Inl TypeError) = Inr r"
    by (auto simp: and_then_eq_Inr)
  from rest obtain s where "dc = JStr s"
    by (cases dc) simp_all
  with line rest that show ?thesis
    by simp
qed

lemma stream_loop_content:
  assumes "stream_loop loads ''content'' ls (sc0, ti0) = Inr (sc, ti)"
  shows "sc = sc0 @ concat (map (content_increment loads) (marked ls))"
    and "map_of ti (JStr ''usage'')
           = last_present (map (frame_usage loads) (marked ls)) (map_of ti0 (JStr ''usage''))"
    and "k \<noteq> JStr ''usage'' \<Longrightarrow> map_of ti k = map_of ti0 k"
  using assms
proof (induction ls arbitrary: sc0 ti0)
  case Nil
  {
    case 1 then show ?case by simp
  next
    case 2 then show ?case by simp
  next
    case 3 then show ?case by simp
  }
next
  case (Cons l ls)
  {
    case 1
    show ?case
    proof (cases "startswith l start_token")
      case False
      with 1 Cons.IH(1) show ?thesis by (simp add: marked_Cons)
    next
      case True
      from stream_loop_step [OF True 1] obtain s u where
        line: "parse_one_line_content loads (drop start_token_len l) ''content'' = Inr (JStr s, u)"
        and rest: "stream_loop loads ''content'' ls
           (sc0 @ s, if truthy u then AList.update (JStr ''usage'') u ti0 else ti0) = Inr (sc, ti)"
        by blast
      from Cons.IH(1) [OF rest] content_line(1) [OF line] True show ?thesis
        by (simp add: marked_Cons)
    qed
  next
    case 2
    show ?case
    proof (cases "startswith l start_token")
      case False
      with 2 Cons.IH(2) show ?thesis by (simp add: marked_Cons)
    next
      case True
      from stream_loop_step [OF True 2] obtain s u where
        line: "parse_one_line_content loads (drop start_token_len l) ''content'' = Inr (JStr s, u)"
        and rest: "stream_loop loads ''content'' ls
           (sc0 @ s, if truthy u then AList.update (JStr ''usage'') u ti0 else ti0) = Inr (sc, ti)"
        by blast
      from Cons.IH(2) [OF rest] content_line(2) [OF line] True show ?thesis
        by (simp add: marked_Cons AList.update_conv')
    qed
  next
    case 3
    show ?case
    proof (cases "startswith l start_token")
      case False
      with 3 Cons.IH(3) show ?thesis by simp
    next
      case True
      from stream_loop_step [OF True 3(2)] obtain s u where
        rest: "stream_loop loads ''content'' ls
           (sc0 @ s, if truthy u then AList.update (JStr ''usage'') u ti0 else ti0) = Inr (sc, ti)"
        by blast
      from Cons.IH(3) [OF 3(1) rest] 3(1) show ?thesis
        by (simp add: AList.update_conv')
    qed
  }
qed


lemma content_frame_line:
  assumes "content_frame loads f"
  shows "\<exists>u. parse_one_line_content loads f ''content''
               = Inr (JStr (content_increment loads f), u)"
    and "\<exists>j. loads f = Some j
             \<and> get_path j [Key ''choices'', Idx 0, Key ''delta'', Key ''content'']
                 = Inr (JStr (content_increment loads f))"
proof -
  from assms obtain j where j: "loads f = Some j"
    by (cases "loads f") (simp_all add: content_frame_def)
  from assms j obtain s fr where
    c: "get_path j [Key ''choices'', Idx 0, Key ''delta'', Key ''content''] = Inr (JStr s)"
    and fr: "get_path j [Key ''choices'', Idx 0, Key ''finish_reason''] = Inr fr"
    and u: "fr = JStr ''stop'' \<longrightarrow> \<not> isl (getitem j (Key ''usage''))"
    by (auto simp: content_frame_def split: sum.splits json.splits if_splits)
  have inc: "content_increment loads f = s"
    using j c fr u by (auto simp: content_increment_def)
  show "\<exists>j. loads f = Some j
             \<and> get_path j [Key ''choices'', Idx 0, Key ''delta'', Key ''content'']
                 = Inr (JStr (content_increment loads f))"
    using j c inc by simp
  show "\<exists>u. parse_one_line_content loads f ''content''
               = Inr (JStr (content_increment loads f), u)"
  proof (cases "fr = JStr ''stop''")
    case False
    with j c fr inc show ?thesis
      by (simp add: parse_one_line_content_def except_decode_key_def)
  next
    case True
    with u obtain v where "getitem j (Key ''usage'') = Inr v"
      by (cases "getitem j (Key ''usage'')") simp_all
    with True j c fr inc show ?thesis
      by (simp add: parse_one_line_content_def except_decode_key_def)
  qed
qed

lemma malformed_frame_line:
  assumes "malformed_frame loads f"
  shows "parse_one_line_content loads f ''content'' = Inr (JStr '''', JNull)"
    and "content_increment loads f = ''''"
proof -
  show "parse_one_line_content loads f ''content'' = Inr (JStr '''', JNull)"
    using assms
    by (auto simp: malformed_frame_def parse_one_line_content_def except_decode_key_def
        split: option.splits sum.splits)
  show "content_increment loads f = ''''"
    using assms
    by (auto simp: malformed_frame_def content_increment_def
        split: option.splits sum.splits json.splits)
qed

lemma stream_loop_content_total:
  assumes "\<forall>f \<in> set (marked ls). content_frame loads f \<or> malformed_frame loads f"
  shows "\<exists>sc ti. stream_loop loads ''content'' ls (sc0, ti0) = Inr (sc, ti)"
  using assms
proof (induction ls arbitrary: sc0 ti0)
  case Nil
  show ?case by simp
next
  case (Cons l ls)
  show ?case
  proof (cases "startswith l start_token")
    case False
    with Cons.prems have "\<forall>f \<in> set (marked ls). content_frame loads f \<or> malformed_frame loads f"
      by (simp add: marked_Cons)
    from Cons.IH [OF this, of sc0 ti0] False show ?thesis
      by simp
  next
    case True
    with Cons.prems have rest: "\<forall>f \<in> set (marked ls). content_frame loads f \<or> malformed_frame loads f"
      and kind: "content_frame loads (drop start_token_len l)
                 \<or> malformed_frame loads (drop start_token_len l)"
      by (simp_all add: marked_Cons)
    from kind obtain s u where
      line: "parse_one_line_content loads (drop start_token_len l) ''content'' = Inr (JStr s, u)"
      using content_frame_line(1) malformed_frame_line(1) by blast
    from Cons.IH [OF rest, of "sc0 @ s"
        "if truthy u then AList.update (JStr ''usage'') u ti0 else ti0"] True line
    show ?thesis
      by simp
  qed
qed

section \<open>The stages of the reconstructor\<close>

lemma first_frame_stream:
  assumes "first_frame loads psb buffer = Inr (stream, txt_lines, first_dict, msg)"
  shows "stream = startswith buffer ''data: ''"
    and "stream \<Longrightarrow> txt_lines = psb buffer"
  using assms
  by (auto simp: first_frame_def Let_def and_then_eq_Inr
      split: if_splits list.splits option.splits)

lemma header_Inr:
  assumes "header first_dict msg = Inr (target_info, role, tool_calls, parse_content_key)"
  obtains created ident model content where
    "getitem first_dict (Key ''created'') = Inr created"
    "getitem first_dict (Key ''id'') = Inr ident"
    "getitem first_dict (Key ''model'') = Inr model"
    "getitem msg (Key ''role'') = Inr role"
    "py_get msg ''content'' JNull = Inr content"
    "py_get msg ''tool_calls'' JNull = Inr tool_calls"
    "hashable role"
    "parse_content_key = (if truthy tool_calls then ''tool_calls'' else ''content'')"
    "target_info =
       AList.update (JStr ''is_tool_calls'') (JBool (truthy tool_calls))
         (AList.update role (if truthy tool_calls then tool_calls else content)
           (AList.update (JStr ''role'') role
             (AList.update (JStr ''model'') model
               (AList.update (JStr ''id'') ident
                 (AList.update (JStr ''created'') created [])))))"
proof -
  from assms obtain created ident model role' content tc where
    g: "getitem first_dict (Key ''created'') = Inr created"
      "getitem first_dict (Key ''id'') = Inr ident"
      "getitem first_dict (Key ''model'') = Inr model"
      "getitem msg (Key ''role'') = Inr role'"
      "py_get msg ''content'' JNull = Inr content"
      "py_get msg ''tool_calls'' JNull = Inr tc"
    and rest: "(let target_info =
              AList.update (JStr ''role'') role'
                (AList.update (JStr ''model'') model
                  (AList.update (JStr ''id'') ident
                    (AList.update (JStr ''created'') created [])))
        in if truthy tc then
             and_then (setitem target_info role' tc) (\<lambda>target_info.
               Inr (AList.update (JStr ''is_tool_calls'') (JBool True) target_info,
                    role', tc, ''tool_calls''))
           else
             and_then (setitem target_info role' content) (\<lambda>target_info.
               Inr (AList.update (JStr ''is_tool_calls'') (JBool False) target_info,
                    role', tc, ''content'')))
        = Inr (target_info, role, tool_calls, parse_content_key)"
    unfolding header_def and_then_eq_Inr by blast
  from rest have eqs: "role' = role" "tc = tool_calls" "hashable role"
    "parse_content_key = (if truthy tool_calls then ''tool_calls'' else ''content'')"
    "target_info =
       AList.update (JStr ''is_tool_calls'') (JBool (truthy tool_calls))
         (AList.update role (if truthy tool_calls then tool_calls else content)
           (AList.update (JStr ''role'') role
             (AList.update (JStr ''model'') model
               (AList.update (JStr ''id'') ident
                 (AList.update (JStr ''created'') created [])))))"
    by (auto simp: Let_def setitem_def and_then_eq_Inr split: if_splits)
  from g eqs that show ?thesis
    by simp
qed

lemma header_flag:
  assumes "header first_dict msg = Inr (target_info, role, tool_calls, parse_content_key)"
  shows "map_of target_info (JStr ''is_tool_calls'') = Some (JBool (truthy tool_calls))"
  using assms by (elim header_Inr) (simp add: AList.update_conv')



lemma header_no_usage:
  assumes "header first_dict msg = Inr (target_info, role, tool_calls, parse_content_key)"
    and "role \<noteq> JStr ''usage''"
  shows "map_of target_info (JStr ''usage'') = None"
  using assms by (elim header_Inr) (simp add: AList.update_conv')


lemma finish_content:
  assumes "finish role tool_calls (sc, ti) = Inr info"
    and "map_of ti (JStr ''is_tool_calls'') = Some (JBool False)"
  shows "info = AList.update role (JStr sc) ti"
  using assms by (auto simp: finish_def setitem_def split: if_splits)


lemma parse_bytearray_stages:
  assumes "first_frame loads psb buffer = Inr (stream, txt_lines, first_dict, msg)"
    and "header first_dict msg = Inr (target_info, role, tool_calls, parse_content_key)"
  shows "parse_bytearray loads psb buffer =
           (if \<not> stream then Inr target_info
            else and_then (stream_loop loads parse_content_key (tl txt_lines) ('''', target_info))
                   (finish role tool_calls))"
  using assms by (simp add: parse_bytearray_def)

lemma parse_bytearray_streamed:
  assumes "first_frame loads psb buffer = Inr (True, txt_lines, first_dict, msg)"
    and "header first_dict msg = Inr (target_info, role, tool_calls, parse_content_key)"
    and "parse_bytearray loads psb buffer = Inr info"
  obtains sc ti where
    "stream_loop loads parse_content_key (tl txt_lines) ('''', target_info) = Inr (sc, ti)"
    and "finish role tool_calls (sc, ti) = Inr info"
proof -
  from assms(3) have "and_then (stream_loop loads parse_content_key (tl txt_lines) ('''', target_info))
                   (finish role tool_calls) = Inr info"
    unfolding parse_bytearray_stages [OF assms(1,2)] by simp
  then obtain st where "stream_loop loads parse_content_key (tl txt_lines) ('''', target_info) = Inr st"
    and "finish role tool_calls st = Inr info"
    unfolding and_then_eq_Inr by blast
  with that show ?thesis by (cases st) simp
qed

lemma finish_content_total:
  assumes "map_of ti (JStr ''is_tool_calls'') = Some (JBool False)"
    and "hashable role"
  shows "finish role tool_calls (sc, ti) = Inr (AList.update role (JStr sc) ti)"
  using assms by (simp add: finish_def setitem_def)

section \<open>Streamed content\<close>

text \<open>
  C1, as the code has it. Take a streamed response whose first frame decodes, whose
  header selects the content mode, and whose later frames are each a content frame or a
  malformed frame. Then a result is produced, and the value it holds under the role is
  the concatenation, in arrival order, of the increments of the later frames: a content
  frame contributes its \<^verbatim>\<open>delta.content\<close> string, and a malformed frame contributes the
  empty string, also when it carries a \<^verbatim>\<open>delta.content\<close> and lacks \<^verbatim>\<open>finish_reason\<close> or,
  with the finish reason \<^verbatim>\<open>"stop"\<close>, lacks \<^verbatim>\<open>usage\<close>.
\<close>

theorem streamed_content:
  assumes "first_frame loads parse_sse_buffer buffer = Inr (True, txt_lines, first_dict, msg)"
    and "header first_dict msg = Inr (target_info, role, tool_calls, ''content'')"
    and "\<forall>f \<in> set (frames txt_lines). content_frame loads f \<or> malformed_frame loads f"
  shows "(\<exists>info. parse_bytearray loads parse_sse_buffer buffer = Inr info
            \<and> map_of info role
                = Some (JStr (concat (map (content_increment loads) (frames txt_lines)))))
       \<and> (\<forall>f \<in> set (frames txt_lines).
             if malformed_frame loads f then content_increment loads f = ''''
             else \<exists>j. loads f = Some j
                    \<and> get_path j [Key ''choices'', Idx 0, Key ''delta'', Key ''content'']
                        = Inr (JStr (content_increment loads f)))"
proof (rule conjI)
  from assms(3) have covered:
    "\<forall>f \<in> set (marked (tl txt_lines)). content_frame loads f \<or> malformed_frame loads f"
    by (simp add: frames_def)
  from stream_loop_content_total [OF covered, of "''''" target_info] obtain sc ti where
    loop: "stream_loop loads ''content'' (tl txt_lines) ('''', target_info) = Inr (sc, ti)"
    by blast
  have key: "''content'' = (if truthy tool_calls then ''tool_calls'' else ''content'')"
    using assms(2) by (elim header_Inr)
  have hash: "hashable role"
    using assms(2) by (elim header_Inr)
  from key have mode: "\<not> truthy tool_calls"
    by (simp split: if_splits)
  have "map_of ti (JStr ''is_tool_calls'') = map_of target_info (JStr ''is_tool_calls'')"
    using stream_loop_content(3) [OF loop] by simp
  with header_flag [OF assms(2)] mode
  have flag: "map_of ti (JStr ''is_tool_calls'') = Some (JBool False)"
    by simp
  have sc: "sc = concat (map (content_increment loads) (frames txt_lines))"
    using stream_loop_content(1) [OF loop] by (simp add: frames_def)
  have run: "parse_bytearray loads parse_sse_buffer buffer
               = Inr (AList.update role (JStr sc) ti)"
    unfolding parse_bytearray_stages [OF assms(1,2)]
    by (simp add: loop finish_content_total [OF flag hash])
  have "map_of (AList.update role (JStr sc) ti) role
          = Some (JStr (concat (map (content_increment loads) (frames txt_lines))))"
    by (simp add: AList.update_conv' sc)
  with run
  show "\<exists>info. parse_bytearray loads parse_sse_buffer buffer = Inr info
            \<and> map_of info role
                = Some (JStr (concat (map (content_increment loads) (frames txt_lines))))"
    by blast
next
  show "\<forall>f \<in> set (frames txt_lines).
             if malformed_frame loads f then content_increment loads f = ''''
             else \<exists>j. loads f = Some j
                    \<and> get_path j [Key ''choices'', Idx 0, Key ''delta'', Key ''content'']
                        = Inr (JStr (content_increment loads f))"
  proof
    fix f assume "f \<in> set (frames txt_lines)"
    with assms(3) have kind: "content_frame loads f \<or> malformed_frame loads f"
      by blast
    show "if malformed_frame loads f then content_increment loads f = ''''
             else \<exists>j. loads f = Some j
                    \<and> get_path j [Key ''choices'', Idx 0, Key ''delta'', Key ''content'']
                        = Inr (JStr (content_increment loads f))"
    proof (cases "malformed_frame loads f")
      case True
      with malformed_frame_line(2) [OF True] show ?thesis by simp
    next
      case False
      with kind have "content_frame loads f" by simp
      from content_frame_line(2) [OF this] False show ?thesis by simp
    qed
  qed
qed

theorem streamed_content_witness:
  "parse_bytearray sample_loads split_lines
       (sse_buffer [txt_header, txt_mid, ''[DONE]'', txt_empty_delta, txt_lo])
     = Inr (response_info (JStr ''llo'') False [(JStr ''usage'', usage5)])
   \<and> frames (split_lines (sse_buffer [txt_header, txt_mid, ''[DONE]'', txt_empty_delta, txt_lo]))
       = [txt_mid, ''[DONE]'', txt_empty_delta, txt_lo]
   \<and> map (content_increment sample_loads) [txt_mid, ''[DONE]'', txt_empty_delta, txt_lo]
       = [''l'', '''', '''', ''lo'']
   \<and> map (malformed_frame sample_loads) [txt_mid, ''[DONE]'', txt_empty_delta, txt_lo]
       = [False, True, True, False]
   \<and> map_of (response_info (JStr ''llo'') False [(JStr ''usage'', usage5)]) (JStr ''assistant'')
       = Some (JStr ''llo'')"
proof -
  let ?B = "sse_buffer [txt_header, txt_mid, ''[DONE]'', txt_empty_delta, txt_lo]"
  let ?info = "response_info (JStr ''llo'') False [(JStr ''usage'', usage5)]"
  have ff: "first_frame sample_loads split_lines ?B
              = Inr (True, split_lines ?B, dec_header, msg_header)"
    by (simp add: first_frame_def sse_simps loads_simps dec_defs)
  have hd: "header dec_header msg_header
              = Inr (response_info (JStr ''Hel'') False [], JStr ''assistant'', JNull, ''content'')"
    by (simp add: run_defs dec_defs)
  have fr: "frames (split_lines ?B) = [txt_mid, ''[DONE]'', txt_empty_delta, txt_lo]"
    by (simp add: frames_def marked_def sse_simps)
  have kinds: "content_frame sample_loads txt_mid" "malformed_frame sample_loads ''[DONE]''"
    "malformed_frame sample_loads txt_empty_delta" "content_frame sample_loads txt_lo"
    by (simp_all add: content_frame_def malformed_frame_def loads_simps dec_defs usage5_def)
  have others: "\<not> malformed_frame sample_loads txt_mid" "\<not> malformed_frame sample_loads txt_lo"
    by (simp_all add: malformed_frame_def loads_simps dec_defs usage5_def)
  have cov: "\<forall>f \<in> set (frames (split_lines ?B)).
               content_frame sample_loads f \<or> malformed_frame sample_loads f"
    unfolding fr using kinds by simp
  have incs: "map (content_increment sample_loads) [txt_mid, ''[DONE]'', txt_empty_delta, txt_lo]
                = [''l'', '''', '''', ''lo'']"
    by (simp add: content_increment_def loads_simps dec_defs usage5_def)
  have run: "parse_bytearray sample_loads split_lines ?B = Inr ?info"
    by (simp add: run_defs sse_simps loads_simps dec_defs)
  from streamed_content [OF ff hd cov, THEN conjunct1] obtain info where
    r: "parse_bytearray sample_loads split_lines ?B = Inr info"
    and p: "map_of info (JStr ''assistant'')
              = Some (JStr (concat (map (content_increment sample_loads)
                                      (frames (split_lines ?B)))))"
    by (elim exE conjE) (rule that; assumption)
  from r run have "info = ?info"
    by simp
  with p have payload: "map_of ?info (JStr ''assistant'') = Some (JStr ''llo'')"
    unfolding fr incs by simp
  have mal: "map (malformed_frame sample_loads) [txt_mid, ''[DONE]'', txt_empty_delta, txt_lo]
               = [False, True, True, False]"
    using kinds others by simp
  show ?thesis
    by (intro conjI run fr incs mal payload)
qed

text \<open>
  The claim as the spec states it fails in two ways. By the handlers' design, a frame
  that carries a \<^verbatim>\<open>delta.content\<close> string and lacks \<^verbatim>\<open>finish_reason\<close>, or reports
  \<^verbatim>\<open>"stop"\<close> and lacks \<^verbatim>\<open>usage\<close>, contributes nothing: the first stream below has the
  strings \<^verbatim>\<open>"l"\<close> and \<^verbatim>\<open>"lo"\<close> in its later frames and the content of its result is empty.
  And a later frame with an empty \<^verbatim>\<open>choices\<close> list does not contribute the empty string:
  on the second stream no result is produced.
\<close>

theorem content_discarded_counterexample:
  "sample_loads txt_bare = Some dec_bare
   \<and> get_path dec_bare [Key ''choices'', Idx 0, Key ''delta'', Key ''content'']
       = Inr (JStr ''l'')
   \<and> sample_loads txt_stop_no_usage = Some dec_stop_no_usage
   \<and> get_path dec_stop_no_usage [Key ''choices'', Idx 0, Key ''delta'', Key ''content'']
       = Inr (JStr ''lo'')
   \<and> parse_bytearray sample_loads split_lines
         (sse_buffer [txt_header, txt_bare, txt_stop_no_usage])
       = Inr (response_info (JStr '''') False [])
   \<and> sample_loads txt_no_choices = Some dec_no_choices
   \<and> parse_bytearray sample_loads split_lines
         (sse_buffer [txt_header, txt_mid, txt_lo, txt_no_choices, ''[DONE]''])
       = Inl IndexError"
proof (intro conjI)
  show "sample_loads txt_bare = Some dec_bare"
    by (fact loads_bare)
  show "get_path dec_bare [Key ''choices'', Idx 0, Key ''delta'', Key ''content'']
          = Inr (JStr ''l'')"
    by (simp add: dec_defs)
  show "sample_loads txt_stop_no_usage = Some dec_stop_no_usage"
    by (fact loads_stop_no_usage)
  show "get_path dec_stop_no_usage [Key ''choices'', Idx 0, Key ''delta'', Key ''content'']
          = Inr (JStr ''lo'')"
    by (simp add: dec_defs)
  show "parse_bytearray sample_loads split_lines
         (sse_buffer [txt_header, txt_bare, txt_stop_no_usage])
       = Inr (response_info (JStr '''') False [])"
    by (simp add: run_defs sse_simps loads_simps dec_defs)
  show "sample_loads txt_no_choices = Some dec_no_choices"
    by (fact loads_no_choices)
  show "parse_bytearray sample_loads split_lines
         (sse_buffer [txt_header, txt_mid, txt_lo, txt_no_choices, ''[DONE]''])
       = Inl IndexError"
    by (simp add: run_defs sse_simps loads_simps dec_defs)
qed

section \<open>Usage statistics\<close>

text \<open>
  C3, as the code has it. For a streamed response in content mode whose role is not the
  string \<^verbatim>\<open>"usage"\<close>, the result holds usage statistics exactly when some later frame
  reports them, that is, the frame decodes, carries \<^verbatim>\<open>delta.content\<close>, has the finish
  reason \<^verbatim>\<open>"stop"\<close> and a \<^verbatim>\<open>usage\<close> value that Python takes as true; the statistics are
  then those of the last such frame.
\<close>

theorem streamed_usage:
  assumes "first_frame loads parse_sse_buffer buffer = Inr (True, txt_lines, first_dict, msg)"
    and "header first_dict msg = Inr (target_info, role, tool_calls, ''content'')"
    and "role \<noteq> JStr ''usage''"
    and "parse_bytearray loads parse_sse_buffer buffer = Inr info"
  shows "map_of info (JStr ''usage'')
           = last_present (map (frame_usage loads) (frames txt_lines)) None
         \<and> (map_of info (JStr ''usage'') \<noteq> None
              \<longleftrightarrow> (\<exists>f \<in> set (frames txt_lines). frame_usage loads f \<noteq> None))"
proof -
  from parse_bytearray_streamed [OF assms(1,2,4)] obtain sc ti where
    loop: "stream_loop loads ''content'' (tl txt_lines) ('''', target_info) = Inr (sc, ti)"
    and fin: "finish role tool_calls (sc, ti) = Inr info"
    by blast
  have key: "''content'' = (if truthy tool_calls then ''tool_calls'' else ''content'')"
    using assms(2) by (elim header_Inr)
  then have mode: "\<not> truthy tool_calls"
    by (simp split: if_splits)
  have "map_of ti (JStr ''is_tool_calls'') = map_of target_info (JStr ''is_tool_calls'')"
    using stream_loop_content(3) [OF loop] by simp
  with header_flag [OF assms(2)] mode
  have flag: "map_of ti (JStr ''is_tool_calls'') = Some (JBool False)"
    by simp
  have "map_of ti (JStr ''usage'')
          = last_present (map (frame_usage loads) (frames txt_lines)) None"
    using stream_loop_content(2) [OF loop] header_no_usage [OF assms(2,3)]
    by (simp add: frames_def)
  with finish_content [OF fin flag] assms(3)
  have val: "map_of info (JStr ''usage'')
          = last_present (map (frame_usage loads) (frames txt_lines)) None"
    by (simp add: AList.update_conv')
  have "last_present (map (frame_usage loads) (frames txt_lines)) None \<noteq> None
          \<longleftrightarrow> (\<exists>f \<in> set (frames txt_lines). frame_usage loads f \<noteq> None)"
    by (simp add: last_present_None)
  with val show ?thesis by simp
qed

theorem streamed_usage_witness:
  "parse_bytearray sample_loads split_lines (sse_buffer [txt_header, txt_stop_no_usage, txt_lo])
     = Inr (response_info (JStr ''lo'') False [(JStr ''usage'', usage5)])
   \<and> last_present (map (frame_usage sample_loads)
        (frames (split_lines (sse_buffer [txt_header, txt_stop_no_usage, txt_lo])))) None
       = Some usage5
   \<and> map_of (response_info (JStr ''lo'') False [(JStr ''usage'', usage5)]) (JStr ''usage'')
       = last_present (map (frame_usage sample_loads)
           (frames (split_lines (sse_buffer [txt_header, txt_stop_no_usage, txt_lo])))) None"
proof -
  let ?B = "sse_buffer [txt_header, txt_stop_no_usage, txt_lo]"
  have ff: "first_frame sample_loads split_lines ?B
              = Inr (True, split_lines ?B, dec_header, msg_header)"
    by (simp add: first_frame_def sse_simps loads_simps dec_defs)
  have hd: "header dec_header msg_header
              = Inr (response_info (JStr ''Hel'') False [], JStr ''assistant'', JNull, ''content'')"
    by (simp add: run_defs dec_defs)
  have r: "JStr ''assistant'' \<noteq> JStr ''usage''"
    by simp
  have run: "parse_bytearray sample_loads split_lines ?B
               = Inr (response_info (JStr ''lo'') False [(JStr ''usage'', usage5)])"
    by (simp add: run_defs sse_simps loads_simps dec_defs)
  have us: "last_present (map (frame_usage sample_loads) (frames (split_lines ?B))) None
              = Some usage5"
    by (simp add: frames_def marked_def frame_usage_def sse_simps loads_simps dec_defs
        truthy_usage5)
  show ?thesis
    by (intro conjI run us streamed_usage [OF ff hd r run, THEN conjunct1])
qed

text \<open>
  The claim as the spec states it fails on a stream whose terminal frame has an empty
  delta: the frame reports the finish reason \<^verbatim>\<open>"stop"\<close> and carries usage statistics, and
  the result has none.
\<close>

theorem usage_dropped_counterexample:
  "sample_loads txt_empty_delta = Some dec_empty_delta
   \<and> get_path dec_empty_delta [Key ''choices'', Idx 0, Key ''finish_reason''] = Inr (JStr ''stop'')
   \<and> getitem dec_empty_delta (Key ''usage'') = Inr usage5
   \<and> parse_bytearray sample_loads split_lines (sse_buffer [txt_header, txt_empty_delta])
       = Inr (response_info (JStr '''') False [])
   \<and> map_of (response_info (JStr '''') False []) (JStr ''usage'') = None"
proof (intro conjI)
  show "sample_loads txt_empty_delta = Some dec_empty_delta"
    by (fact loads_empty_delta)
  show "get_path dec_empty_delta [Key ''choices'', Idx 0, Key ''finish_reason'']
          = Inr (JStr ''stop'')"
    by (simp add: dec_defs)
  show "getitem dec_empty_delta (Key ''usage'') = Inr usage5"
    by (simp add: dec_defs)
  show "parse_bytearray sample_loads split_lines (sse_buffer [txt_header, txt_empty_delta])
       = Inr (response_info (JStr '''') False [])"
    by (simp add: run_defs sse_simps loads_simps dec_defs)
  show "map_of (response_info (JStr '''') False []) (JStr ''usage'') = None"
    by (simp add: response_info_def)
qed

section \<open>An undecodable first frame\<close>

text \<open>
  C5, as the code has it. When the text of the first frame is not valid JSON, the
  reconstructor fails with the decoding error and returns no result.
\<close>

theorem undecodable_first_frame:
  assumes "first_text parse_sse_buffer buffer = Some t"
    and "loads t = None"
  shows "parse_bytearray loads parse_sse_buffer buffer = Inl JSONDecodeError"
proof -
  from assms have "first_frame loads parse_sse_buffer buffer = Inl JSONDecodeError"
    by (auto simp: first_text_def first_frame_def Let_def split: if_splits list.splits)
  then show ?thesis
    by (simp add: parse_bytearray_def)
qed

theorem undecodable_first_frame_witness:
  "first_text split_lines (sse_buffer [''[DONE]'', txt_lo]) = Some ''[DONE]''
   \<and> sample_loads ''[DONE]'' = None
   \<and> parse_bytearray sample_loads split_lines (sse_buffer [''[DONE]'', txt_lo])
       = Inl JSONDecodeError"
proof -
  have t: "first_text split_lines (sse_buffer [''[DONE]'', txt_lo]) = Some ''[DONE]''"
    by (simp add: first_text_def sse_simps)
  show ?thesis
    by (intro conjI t loads_done undecodable_first_frame [where loads = sample_loads, OF t loads_done])
qed

text \<open>
  A decoding failure of the first frame is not the only failure: the first frame \<^verbatim>\<open>{}\<close>
  is valid JSON, and the reconstructor fails on it with \<^verbatim>\<open>KeyError\<close>.
\<close>

theorem other_hard_failure_counterexample:
  "sample_loads ''{}'' = Some (JObj [])
   \<and> parse_bytearray sample_loads split_lines ''{}'' = Inl KeyError"
proof (intro conjI)
  show "sample_loads ''{}'' = Some (JObj [])"
    by (fact loads_empty_object)
  show "parse_bytearray sample_loads split_lines ''{}'' = Inl KeyError"
    by (simp add: run_defs empty_object_unmarked loads_simps)
qed

section \<open>One payload, selected by the flag\<close>



section \<open>Streamed tool calls\<close>




section \<open>Where the code departs from the specification\<close>

lemma undecodable_frame_skipped:
  assumes "loads line = None"
  shows "stream_loop loads parse_content_key ((start_token @ line) # rest) st
           = stream_loop loads parse_content_key rest st"
proof -
  have "parse_one_line_content loads line parse_content_key = Inr (JStr '''', JNull)"
    using assms by (simp add: parse_one_line_content_def except_decode_key_def)
  then show ?thesis
    by (cases st) (simp add: startswith_def start_token_len_def)
qed

lemma frame_without_key_skipped:
  assumes "loads line = Some (JObj d)"
    and "map_of d ''choices'' = None"
    and "parse_content_key = ''content'' \<or> parse_content_key = ''tool_calls''"
  shows "stream_loop loads parse_content_key ((start_token @ line) # rest) st
           = stream_loop loads parse_content_key rest st"
proof -
  have "parse_one_line_content loads line parse_content_key = Inr (JStr '''', JNull)"
    using assms by (auto simp: parse_one_line_content_def except_decode_key_def)
  then show ?thesis
    by (cases st) (simp add: startswith_def start_token_len_def)
qed

text \<open>
  C2. A response that is not streamed and reports usage statistics: the result has the
  content of the message and no usage, whereas a stream with the same statistics in its
  terminal frame yields a result that has them.
\<close>

theorem unstreamed_usage_missing:
  "sample_loads txt_message = Some dec_message
   \<and> getitem dec_message (Key ''usage'') = Inr usage5
   \<and> parse_bytearray sample_loads split_lines txt_message
       = Inr (response_info (JStr ''Hi'') False [])
   \<and> map_of (response_info (JStr ''Hi'') False []) (JStr ''usage'') = None
   \<and> parse_bytearray sample_loads split_lines (sse_buffer [txt_header, txt_lo])
       = Inr (response_info (JStr ''lo'') False [(JStr ''usage'', usage5)])"
proof (intro conjI)
  show "sample_loads txt_message = Some dec_message"
    by (fact loads_message)
  show "getitem dec_message (Key ''usage'') = Inr usage5"
    by (simp add: dec_defs)
  show "parse_bytearray sample_loads split_lines txt_message
       = Inr (response_info (JStr ''Hi'') False [])"
    by (simp add: run_defs message_unmarked loads_simps dec_defs)
  show "map_of (response_info (JStr ''Hi'') False []) (JStr ''usage'') = None"
    by (simp add: response_info_def)
  show "parse_bytearray sample_loads split_lines (sse_buffer [txt_header, txt_lo])
       = Inr (response_info (JStr ''lo'') False [(JStr ''usage'', usage5)])"
    by (simp add: run_defs sse_simps loads_simps dec_defs)
qed

text \<open>
  C4. A later frame that is valid JSON with an empty \<^verbatim>\<open>choices\<close> list has none of the
  keys of the content mode. Its line raises \<^verbatim>\<open>IndexError\<close>, which no handler catches, and
  the whole reconstruction fails, although the same stream without that frame is
  reconstructed.
\<close>

theorem keyless_frame_aborts:
  "sample_loads txt_no_choices = Some dec_no_choices
   \<and> parse_one_line_content sample_loads txt_no_choices ''content'' = Inl IndexError
   \<and> parse_bytearray sample_loads split_lines (sse_buffer [txt_header, txt_no_choices, txt_lo])
       = Inl IndexError
   \<and> parse_bytearray sample_loads split_lines (sse_buffer [txt_header, txt_lo])
       = Inr (response_info (JStr ''lo'') False [(JStr ''usage'', usage5)])"
proof (intro conjI)
  show "sample_loads txt_no_choices = Some dec_no_choices"
    by (fact loads_no_choices)
  show "parse_one_line_content sample_loads txt_no_choices ''content'' = Inl IndexError"
    by (simp add: run_defs loads_simps dec_defs)
  show "parse_bytearray sample_loads split_lines
          (sse_buffer [txt_header, txt_no_choices, txt_lo]) = Inl IndexError"
    by (simp add: run_defs sse_simps loads_simps dec_defs)
  show "parse_bytearray sample_loads split_lines (sse_buffer [txt_header, txt_lo])
       = Inr (response_info (JStr ''lo'') False [(JStr ''usage'', usage5)])"
    by (simp add: run_defs sse_simps loads_simps dec_defs)
qed

end
